theory Spec2Isabelle
  imports Main "HOL-Library.Word" "HOL-Library.Sublist"
begin

unbundle bit_operations_syntax

section \<open>Python strings and values\<close>

text \<open>
  A Python \<open>str\<close> is modelled as a HOL \<open>string\<close>: a sequence of code points below 256.
  \<open>bytes\<close> are lists of 8-bit words.  The three \<open>str\<close> methods that \<open>sha256_hex\<close> calls are
  written out for this range of code points, following the Unicode case properties that
  CPython uses: \<open>isupper\<close> holds when no character is lowercase and at least one is
  uppercase; \<open>lower\<close> maps each uppercase letter to the letter 32 places above it;
  \<open>capitalize\<close> title-cases the first character and lowers the rest.  Three characters
  title-case to something outside the range, so \<open>capitalize\<close> returns code points.
\<close>

type_synonym byte = "8 word"

definition is_upper_char :: "char \<Rightarrow> bool" where
  "is_upper_char c =
     (let n = (of_char c :: nat)
      in (65 \<le> n \<and> n \<le> 90) \<or> (192 \<le> n \<and> n \<le> 214) \<or> (216 \<le> n \<and> n \<le> 222))"

definition is_lower_char :: "char \<Rightarrow> bool" where
  "is_lower_char c =
     (let n = (of_char c :: nat)
      in (97 \<le> n \<and> n \<le> 122) \<or> n = 170 \<or> n = 181 \<or> n = 186
         \<or> (223 \<le> n \<and> n \<le> 246) \<or> (248 \<le> n \<and> n \<le> 255))"

definition isupper :: "string \<Rightarrow> bool" where
  "isupper s = (list_ex is_upper_char s \<and> list_ex is_lower_char s = False)"

definition lower_char :: "char \<Rightarrow> char" where
  "lower_char c = (if is_upper_char c then char_of (of_char c + (32 :: nat)) else c)"

definition lower :: "string \<Rightarrow> string" where
  "lower s = map lower_char s"

definition title_char :: "char \<Rightarrow> nat list" where
  "title_char c =
     (let n = (of_char c :: nat)
      in if n = 181 then [924]
         else if n = 223 then [83, 115]
         else if n = 255 then [376]
         else if n = 170 \<or> n = 186 then [n]
         else if is_lower_char c then [n - 32]
         else [n])"

fun capitalize :: "string \<Rightarrow> nat list" where
  "capitalize [] = []"
| "capitalize (c # cs) = title_char c @ map of_char (lower cs)"

text \<open>\<open>s.encode("utf-8")\<close>: one byte below 128, two bytes from 128 to 255.\<close>

definition encode_char :: "char \<Rightarrow> byte list" where
  "encode_char c =
     (let n = (of_char c :: nat)
      in if n < 128 then [word_of_nat n]
         else [word_of_nat (192 + n div 64), word_of_nat (128 + n mod 64)])"

definition encode_utf8 :: "string \<Rightarrow> byte list" where
  "encode_utf8 s = concat (map encode_char s)"

subsection \<open>SHA-256\<close>

text \<open>
  \<open>hashlib.sha256\<close> is the function of FIPS 180-4.  A 32-bit word is an \<open>int\<close> in
  \<open>{0..<2^32}\<close>, with the wrap-around of each addition written out by \<open>u32\<close>.  The round
  constants \<open>K256\<close> and the initial hash value \<open>H256\<close> are the standard's, in decimal.
\<close>

definition u32 :: "int \<Rightarrow> int" where
  "u32 x = x mod 4294967296"

definition rotr :: "nat \<Rightarrow> int \<Rightarrow> int" where
  "rotr n x = drop_bit n x + push_bit (32 - n) (take_bit n x)"

definition shr :: "nat \<Rightarrow> int \<Rightarrow> int" where
  "shr n x = drop_bit n x"

definition not32 :: "int \<Rightarrow> int" where
  "not32 x = 4294967295 - x"

definition Ch :: "int \<Rightarrow> int \<Rightarrow> int \<Rightarrow> int" where
  "Ch x y z = (x AND y) XOR (not32 x AND z)"

definition Maj :: "int \<Rightarrow> int \<Rightarrow> int \<Rightarrow> int" where
  "Maj x y z = (x AND y) XOR (x AND z) XOR (y AND z)"

definition Sigma0 :: "int \<Rightarrow> int" where
  "Sigma0 x = rotr 2 x XOR rotr 13 x XOR rotr 22 x"

definition Sigma1 :: "int \<Rightarrow> int" where
  "Sigma1 x = rotr 6 x XOR rotr 11 x XOR rotr 25 x"

definition sigma0 :: "int \<Rightarrow> int" where
  "sigma0 x = rotr 7 x XOR rotr 18 x XOR shr 3 x"

definition sigma1 :: "int \<Rightarrow> int" where
  "sigma1 x = rotr 17 x XOR rotr 19 x XOR shr 10 x"

definition K256 :: "int list" where
  "K256 =
    [1116352408, 1899447441, 3049323471, 3921009573, 961987163, 1508970993,
     2453635748, 2870763221, 3624381080, 310598401, 607225278, 1426881987,
     1925078388, 2162078206, 2614888103, 3248222580, 3835390401, 4022224774,
     264347078, 604807628, 770255983, 1249150122, 1555081692, 1996064986,
     2554220882, 2821834349, 2952996808, 3210313671, 3336571891, 3584528711,
     113926993, 338241895, 666307205, 773529912, 1294757372, 1396182291,
     1695183700, 1986661051, 2177026350, 2456956037, 2730485921, 2820302411,
     3259730800, 3345764771, 3516065817, 3600352804, 4094571909, 275423344,
     430227734, 506948616, 659060556, 883997877, 958139571, 1322822218,
     1537002063, 1747873779, 1955562222, 2024104815, 2227730452, 2361852424,
     2428436474, 2756734187, 3204031479, 3329325298]"

definition H256 :: "int list" where
  "H256 =
    [1779033703, 3144134277, 1013904242, 2773480762, 1359893119, 2600822924,
     528734635, 1541459225]"

fun round256 :: "int list \<Rightarrow> int \<Rightarrow> int \<Rightarrow> int list" where
  "round256 [a, b, c, d, e, f, g, h] k w =
     (let t1 = u32 (h + Sigma1 e + Ch e f g + k + w);
          t2 = u32 (Sigma0 a + Maj a b c)
      in [u32 (t1 + t2), a, b, c, u32 (d + t1), e, f, g])"
| "round256 s _ _ = s"

text \<open>
  The 64 rounds of one block.  \<open>ws\<close> is the window \<open>W\<^sub>t, \<dots>, W\<^sub>t\<^sub>+\<^sub>1\<^sub>5\<close> of the message
  schedule; each round uses \<open>W\<^sub>t\<close> and appends \<open>W\<^sub>t\<^sub>+\<^sub>1\<^sub>6\<close>.
\<close>

fun rounds :: "int list \<Rightarrow> int list \<Rightarrow> int list \<Rightarrow> int list" where
  "rounds [] ws s = s"
| "rounds (k # ks) ws s =
     rounds ks
       (tl ws @ [u32 (sigma1 (ws ! 14) + ws ! 9 + sigma0 (ws ! 1) + ws ! 0)])
       (round256 s k (ws ! 0))"

definition compress :: "int list \<Rightarrow> int list \<Rightarrow> int list" where
  "compress hs blk = map2 (\<lambda>x y. u32 (x + y)) hs (rounds K256 blk hs)"

fun be32 :: "byte list \<Rightarrow> int list" where
  "be32 (a # b # c # d # r) =
     (16777216 * uint a + 65536 * uint b + 256 * uint c + uint d) # be32 r"
| "be32 _ = []"

fun blocks :: "nat \<Rightarrow> int list \<Rightarrow> int list list" where
  "blocks 0 ws = []"
| "blocks (Suc n) ws = take 16 ws # blocks n (drop 16 ws)"

definition pad :: "byte list \<Rightarrow> byte list" where
  "pad m =
     (let l = length m; z = (119 - l mod 64) mod 64; bits = 8 * int l
      in m @ [0x80] @ replicate z 0
           @ map (\<lambda>i. word_of_int (drop_bit (8 * (7 - i)) bits)) [0..<8])"

definition sha256 :: "byte list \<Rightarrow> int list" where
  "sha256 m = (let p = pad m in foldl compress H256 (blocks (length p div 64) (be32 p)))"

definition hexdigit :: "int \<Rightarrow> char" where
  "hexdigit n = (''0123456789abcdef'') ! nat n"

definition hex32 :: "int \<Rightarrow> string" where
  "hex32 w = map (\<lambda>i. hexdigit (drop_bit (4 * (7 - i)) w mod 16)) [0..<8]"

definition hexdigest :: "int list \<Rightarrow> string" where
  "hexdigest hs = concat (map hex32 hs)"

subsection \<open>\<open>sha256_hex\<close>\<close>

text \<open>
  \<^verbatim>\<open>
  def sha256_hex(s: str) -> str:
      if s.isupper():
          s.lower().capitalize()
      return hashlib.sha256(s.encode("utf-8")).hexdigest()
  \<close>
  The second line is an expression statement: Python strings are immutable, the new string
  it builds is bound to nothing.  The model binds it to \<open>discarded\<close>, which the result does
  not mention.
\<close>

definition sha256_hex :: "string \<Rightarrow> string" where
  "sha256_hex s =
     (let discarded = (if isupper s then Some (capitalize (lower s)) else None)
      in hexdigest (sha256 (encode_utf8 s)))"

subsection \<open>Values fetched from the store\<close>

text \<open>
  What \<open>sqlite3\<close> hands to Python for a stored value: \<open>None\<close> for NULL, an \<open>int\<close> for
  INTEGER, a \<open>float\<close> for REAL, a \<open>str\<close> for TEXT, \<open>bytes\<close> for BLOB.  A float is
  represented by the text Python's \<open>repr\<close> gives for it, which determines the float.
\<close>

datatype pyval = PyNone | PyInt int | PyFloat string | PyStr string | PyBytes "byte list"

fun decimal :: "nat \<Rightarrow> string" where
  "decimal n = (if n < 10 then [char_of (48 + n)] else decimal (n div 10) @ [char_of (48 + n mod 10)])"

definition hex_byte :: "byte \<Rightarrow> string" where
  "hex_byte b = [hexdigit (uint b div 16), hexdigit (uint b mod 16)]"

text \<open>One byte inside Python's \<open>repr\<close> of a \<open>bytes\<close> object, for the given quote character.\<close>

definition escape_byte :: "byte \<Rightarrow> byte \<Rightarrow> string" where
  "escape_byte quote b =
     (if b = quote \<or> b = 0x5C then [CHR 0x5C, char_of (unat b)]
      else if b = 0x09 then [CHR 0x5C, CHR ''t'']
      else if b = 0x0A then [CHR 0x5C, CHR ''n'']
      else if b = 0x0D then [CHR 0x5C, CHR ''r'']
      else if b < 0x20 \<or> 0x7F \<le> b then [CHR 0x5C, CHR ''x''] @ hex_byte b
      else [char_of (unat b)])"

definition bytes_repr :: "byte list \<Rightarrow> string" where
  "bytes_repr bs =
     (let quote = (if 0x27 \<in> set bs \<and> 0x22 \<notin> set bs then 0x22 else 0x27)
      in [CHR ''b'', char_of (unat quote)] @ concat (map (escape_byte quote) bs)
           @ [char_of (unat quote)])"

text \<open>\<open>str(value)\<close> for the values above.\<close>

fun py_str :: "pyval \<Rightarrow> string" where
  "py_str PyNone = ''None''"
| "py_str (PyInt i) = (if i < 0 then CHR ''-'' # decimal (nat (- i)) else decimal (nat i))"
| "py_str (PyFloat r) = r"
| "py_str (PyStr s) = s"
| "py_str (PyBytes bs) = bytes_repr bs"

text \<open>The normalisation in the row loop: \<^verbatim>\<open>raw = "" if value is None else str(value)\<close>.\<close>

definition raw :: "pyval \<Rightarrow> string" where
  "raw v = (if v = PyNone then [] else py_str v)"


section \<open>The store\<close>

text \<open>
  A table has an ordered list of column names and a list of rows, each a row identifier
  with one value per column name; a database maps table names to tables.  The state holds
  the database as it is on disk (\<open>durable\<close>), the database as the open connection sees it
  (\<open>working\<close>, with the writes not yet committed), whether a transaction is open, and the
  trace of everything the procedure has printed or asked of the store, in order.
\<close>

type_synonym row = "string \<Rightarrow> pyval"

record table =
  columns :: "string list"
  rows :: "(int \<times> row) list"

type_synonym database = "string \<Rightarrow> table option"

datatype message =
    AddingHashes string
  | NoColumnsToHash
  | AddingColumn string
  | ColumnExists string
  | Hashing string string
  | AllHashesComputed

text \<open>
  The four statements the procedure sends, by table and column instead of by SQL text:
  \<^verbatim>\<open>PRAGMA table_info("T")\<close>, \<^verbatim>\<open>ALTER TABLE "T" ADD COLUMN "h" BLOB\<close>,
  \<^verbatim>\<open>SELECT rowid, "c" FROM "T"\<close> and \<^verbatim>\<open>UPDATE "T" SET "h" = ? WHERE rowid = ?\<close> with
  its two parameters.
\<close>

datatype statement =
    TableInfo string
  | AddColumn string string
  | SelectColumn string string
  | UpdateHash string string string int

datatype event = Print message | Connect | Execute statement | Commit | Close

datatype error = StoreError event

record state =
  durable :: database
  working :: database
  in_tx :: bool
  trace :: "event list"

type_synonym faults = "nat \<Rightarrow> bool"

definition emit :: "event \<Rightarrow> state \<Rightarrow> state" where
  "emit e w = w\<lparr>trace := trace w @ [e]\<rparr>"

definition print :: "message \<Rightarrow> state \<Rightarrow> state" where
  "print m w = emit (Print m) w"

text \<open>
  Any call to the store may raise.  Which calls do is given by \<open>flt\<close>, indexed by the
  position of the call in the trace; the call is recorded either way.  An exception is the
  value \<open>Inl\<close>, with the state in which it was raised.
\<close>

definition call :: "faults \<Rightarrow> event \<Rightarrow> state \<Rightarrow> error \<times> state + state" where
  "call flt e w =
     (if flt (length (trace w)) then Inl (StoreError e, emit e w) else Inr (emit e w))"

text \<open>\<open>sqlite3.connect\<close>: a new connection sees what is on disk, with no transaction open.\<close>

definition connect :: "faults \<Rightarrow> state \<Rightarrow> error \<times> state + state" where
  "connect flt w =
     (case call flt Connect w of
        Inl x \<Rightarrow> Inl x
      | Inr w' \<Rightarrow> Inr (w'\<lparr>working := durable w', in_tx := False\<rparr>))"

text \<open>\<open>PRAGMA table_info\<close> lists the columns of the table, and nothing for a table that does not exist.\<close>

definition table_info :: "faults \<Rightarrow> string \<Rightarrow> state \<Rightarrow> error \<times> state + string list \<times> state" where
  "table_info flt T w =
     (case call flt (Execute (TableInfo T)) w of
        Inl x \<Rightarrow> Inl x
      | Inr w' \<Rightarrow> Inr (case working w' T of None \<Rightarrow> [] | Some t \<Rightarrow> columns t, w'))"

text \<open>
  \<open>ALTER TABLE ADD COLUMN\<close> appends the column, NULL in every row; the store refuses a
  column that exists.  The \<open>sqlite3\<close> module opens no transaction for it, so outside a
  transaction it is on disk at once.
\<close>

definition with_column :: "string \<Rightarrow> table \<Rightarrow> table" where
  "with_column h t =
     t\<lparr>columns := columns t @ [h], rows := map (apsnd (\<lambda>r. r(h := PyNone))) (rows t)\<rparr>"

definition alter :: "string \<Rightarrow> string \<Rightarrow> database \<Rightarrow> database" where
  "alter T h db = (case db T of None \<Rightarrow> db | Some t \<Rightarrow> db(T := Some (with_column h t)))"

definition add_column :: "faults \<Rightarrow> string \<Rightarrow> string \<Rightarrow> state \<Rightarrow> error \<times> state + state" where
  "add_column flt T h w =
     (case call flt (Execute (AddColumn T h)) w of
        Inl x \<Rightarrow> Inl x
      | Inr w' \<Rightarrow>
          (case working w' T of
             None \<Rightarrow> Inl (StoreError (Execute (AddColumn T h)), w')
           | Some t \<Rightarrow>
               if h \<in> set (columns t) then Inl (StoreError (Execute (AddColumn T h)), w')
               else Inr (w'\<lparr>working := alter T h (working w'),
                             durable := (if in_tx w' then durable w' else alter T h (durable w'))\<rparr>)))"

text \<open>\<open>SELECT rowid, "c"\<close> followed by \<open>fetchall\<close>: every row's identifier and value of \<open>c\<close>.\<close>

definition select_column ::
  "faults \<Rightarrow> string \<Rightarrow> string \<Rightarrow> state \<Rightarrow> error \<times> state + (int \<times> pyval) list \<times> state" where
  "select_column flt T c w =
     (case call flt (Execute (SelectColumn T c)) w of
        Inl x \<Rightarrow> Inl x
      | Inr w' \<Rightarrow>
          (case working w' T of
             None \<Rightarrow> Inl (StoreError (Execute (SelectColumn T c)), w')
           | Some t \<Rightarrow>
               if c \<in> set (columns t) then Inr (map (\<lambda>(i, r). (i, r c)) (rows t), w')
               else Inl (StoreError (Execute (SelectColumn T c)), w')))"

text \<open>
  \<open>UPDATE \<dots> SET "h" = ? WHERE rowid = ?\<close> writes the text into \<open>h\<close> of the rows with that
  identifier.  The module opens a transaction before it when none is open, so the write
  stays in \<open>working\<close> until the next commit.
\<close>

definition write_cell :: "string \<Rightarrow> pyval \<Rightarrow> int \<Rightarrow> (int \<times> row) list \<Rightarrow> (int \<times> row) list" where
  "write_cell h v rowid rs = map (\<lambda>(i, r). if i = rowid then (i, r(h := v)) else (i, r)) rs"

definition set_cell :: "string \<Rightarrow> pyval \<Rightarrow> int \<Rightarrow> table \<Rightarrow> table" where
  "set_cell h v rowid t = t\<lparr>rows := write_cell h v rowid (rows t)\<rparr>"

definition update_hash ::
  "faults \<Rightarrow> string \<Rightarrow> string \<Rightarrow> string \<Rightarrow> int \<Rightarrow> state \<Rightarrow> error \<times> state + state" where
  "update_hash flt T h v rowid w =
     (case call flt (Execute (UpdateHash T h v rowid)) w of
        Inl x \<Rightarrow> Inl x
      | Inr w' \<Rightarrow>
          (case working w' T of
             None \<Rightarrow> Inl (StoreError (Execute (UpdateHash T h v rowid)), w')
           | Some t \<Rightarrow>
               if h \<in> set (columns t)
               then Inr (w'\<lparr>working := (working w')(T := Some (set_cell h (PyStr v) rowid t)),
                             in_tx := True\<rparr>)
               else Inl (StoreError (Execute (UpdateHash T h v rowid)), w')))"

definition commit :: "faults \<Rightarrow> state \<Rightarrow> error \<times> state + state" where
  "commit flt w =
     (case call flt Commit w of
        Inl x \<Rightarrow> Inl x
      | Inr w' \<Rightarrow> Inr (w'\<lparr>durable := working w', in_tx := False\<rparr>))"

text \<open>Closing the connection drops what was not committed.\<close>

definition close :: "faults \<Rightarrow> state \<Rightarrow> error \<times> state + state" where
  "close flt w =
     (case call flt Close w of
        Inl x \<Rightarrow> Inl x
      | Inr w' \<Rightarrow> Inr (w'\<lparr>working := durable w', in_tx := False\<rparr>))"

section \<open>The procedure\<close>

text \<open>
  \<^verbatim>\<open>
    for col in to_hash:
        hash_col = f"{col}_sha256"
        if hash_col not in all_cols:
            print(f"Adding column '{hash_col}'...")
            cur.execute(f'ALTER TABLE "{TABLE}" ADD COLUMN "{hash_col}" BLOB;')
        else:
            print(f"Column '{hash_col}' already exists, skipping.")
  \<close>
\<close>

fun add_hash_columns ::
  "faults \<Rightarrow> string \<Rightarrow> string list \<Rightarrow> string list \<Rightarrow> state \<Rightarrow> error \<times> state + state" where
  "add_hash_columns flt TABLE all_cols [] w = Inr w"
| "add_hash_columns flt TABLE all_cols (col # to_hash) w =
     (let hash_col = col @ ''_sha256''
      in if hash_col \<notin> set all_cols
         then (case add_column flt TABLE hash_col (print (AddingColumn hash_col) w) of
                 Inl x \<Rightarrow> Inl x
               | Inr w' \<Rightarrow> add_hash_columns flt TABLE all_cols to_hash w')
         else add_hash_columns flt TABLE all_cols to_hash (print (ColumnExists hash_col) w))"

text \<open>
  \<^verbatim>\<open>
        for rowid, value in cur.fetchall():
            raw = "" if value is None else str(value)
            h   = sha256_hex(raw)
            cur.execute(f'UPDATE "{TABLE}" SET "{hash_col}" = ? WHERE rowid = ?;', (h, rowid))
  \<close>
\<close>

fun update_rows ::
  "faults \<Rightarrow> string \<Rightarrow> string \<Rightarrow> (int \<times> pyval) list \<Rightarrow> state \<Rightarrow> error \<times> state + state" where
  "update_rows flt TABLE hash_col [] w = Inr w"
| "update_rows flt TABLE hash_col ((rowid, value) # fetched) w =
     (let h = sha256_hex (raw value)
      in case update_hash flt TABLE hash_col h rowid w of
           Inl x \<Rightarrow> Inl x
         | Inr w' \<Rightarrow> update_rows flt TABLE hash_col fetched w')"

text \<open>
  \<^verbatim>\<open>
    for col in to_hash:
        hash_col = f"{col}_sha256"
        print(f"Hashing '{col}' -> '{hash_col}'")
        cur.execute(f'SELECT rowid, "{col}" FROM "{TABLE}";')
        for rowid, value in cur.fetchall(): ...
        conn.commit()
  \<close>
\<close>

fun hash_columns ::
  "faults \<Rightarrow> string \<Rightarrow> string list \<Rightarrow> state \<Rightarrow> error \<times> state + state" where
  "hash_columns flt TABLE [] w = Inr w"
| "hash_columns flt TABLE (col # to_hash) w =
     (let hash_col = col @ ''_sha256''
      in case select_column flt TABLE col (print (Hashing col hash_col) w) of
           Inl x \<Rightarrow> Inl x
         | Inr (fetched, w1) \<Rightarrow>
             (case update_rows flt TABLE hash_col fetched w1 of
                Inl x \<Rightarrow> Inl x
              | Inr w2 \<Rightarrow>
                  (case commit flt w2 of
                     Inl x \<Rightarrow> Inl x
                   | Inr w3 \<Rightarrow> hash_columns flt TABLE to_hash w3)))"

text \<open>
  \<open>main\<close>, with the module constant \<open>EXCLUDE_COLS\<close> as a parameter and the database file
  at \<open>db_path\<close> as the state.  The early return leaves the connection open; the last path
  closes it.
\<close>

definition main :: "faults \<Rightarrow> string list \<Rightarrow> string \<Rightarrow> state \<Rightarrow> error \<times> state + state" where
  "main flt EXCLUDE_COLS TABLE w =
     (case connect flt (print (AddingHashes TABLE) w) of
        Inl x \<Rightarrow> Inl x
      | Inr w1 \<Rightarrow>
     (case table_info flt TABLE w1 of
        Inl x \<Rightarrow> Inl x
      | Inr (all_cols, w2) \<Rightarrow>
     (let to_hash = filter (\<lambda>c. c \<notin> set EXCLUDE_COLS) all_cols
      in if to_hash = [] then Inr (print NoColumnsToHash w2)
         else
     (case add_hash_columns flt TABLE all_cols to_hash w2 of
        Inl x \<Rightarrow> Inl x
      | Inr w3 \<Rightarrow>
     (case commit flt w3 of
        Inl x \<Rightarrow> Inl x
      | Inr w4 \<Rightarrow>
     (case hash_columns flt TABLE to_hash w4 of
        Inl x \<Rightarrow> Inl x
      | Inr w5 \<Rightarrow>
     (case close flt w5 of
        Inl x \<Rightarrow> Inl x
      | Inr w6 \<Rightarrow> Inr (print AllHashesComputed w6))))))))"

text \<open>
  \<^verbatim>\<open>
  for TABLE in TABLES:
      main(DB_PATH, TABLE)
  \<close>
  An exception that leaves \<open>main\<close> ends the loop.
\<close>

fun run_tables :: "faults \<Rightarrow> string list \<Rightarrow> string list \<Rightarrow> state \<Rightarrow> error \<times> state + state" where
  "run_tables flt EXCLUDE_COLS [] w = Inr w"
| "run_tables flt EXCLUDE_COLS (TABLE # TABLES) w =
     (case main flt EXCLUDE_COLS TABLE w of
        Inl x \<Rightarrow> Inl x
      | Inr w' \<Rightarrow> run_tables flt EXCLUDE_COLS TABLES w')"

section \<open>What a run leaves behind\<close>

text \<open>The state a call ends in, whether it returned or raised, and whether it returned.\<close>

definition outcome_state :: "error \<times> state + state \<Rightarrow> state" where
  "outcome_state r = (case r of Inl (e, w) \<Rightarrow> w | Inr w \<Rightarrow> w)"

definition succeeded :: "error \<times> state + state \<Rightarrow> bool" where
  "succeeded r = (case r of Inl x \<Rightarrow> False | Inr w \<Rightarrow> True)"

definition raised :: "error \<times> state + state \<Rightarrow> error option" where
  "raised r = (case r of Inl (e, w) \<Rightarrow> Some e | Inr w \<Rightarrow> None)"

text \<open>The events of a run: what it appended to the trace it started with.\<close>

definition events_of :: "state \<Rightarrow> error \<times> state + state \<Rightarrow> event list" where
  "events_of w r = drop (length (trace w)) (trace (outcome_state r))"

fun is_row_statement :: "event \<Rightarrow> bool" where
  "is_row_statement (Execute (SelectColumn T c)) = True"
| "is_row_statement (Execute (UpdateHash T h v i)) = True"
| "is_row_statement e = False"


text \<open>An event that is not an update, or is an update of a column of \<open>T\<close> named \<open>\<dots>_sha256\<close>.\<close>

fun writes_hash_column_only :: "string \<Rightarrow> event \<Rightarrow> bool" where
  "writes_hash_column_only T (Execute (UpdateHash T' h v i)) = (T' = T \<and> suffix ''_sha256'' h)"
| "writes_hash_column_only T e = True"

text \<open>
  Two databases with the same tables, the same row identifiers in each, and the same
  values in every column whose name does not end in \<open>_sha256\<close>.
\<close>

definition same_rows_but_hashes :: "table \<Rightarrow> table \<Rightarrow> bool" where
  "same_rows_but_hashes t t' =
     (map fst (rows t') = map fst (rows t) \<and>
      (\<forall>c. suffix ''_sha256'' c \<or> map (\<lambda>(i, r). r c) (rows t') = map (\<lambda>(i, r). r c) (rows t)))"

definition sources_kept :: "database \<Rightarrow> database \<Rightarrow> bool" where
  "sources_kept db db' = (\<forall>T. rel_option same_rows_but_hashes (db T) (db' T))"

text \<open>The columns \<open>main\<close> selects for hashing.\<close>

abbreviation eligible :: "string list \<Rightarrow> string list \<Rightarrow> string list" where
  "eligible EXCLUDE_COLS all_cols \<equiv> filter (\<lambda>c. c \<notin> set EXCLUDE_COLS) all_cols"



definition hash_row :: "string \<Rightarrow> row \<Rightarrow> row" where
  "hash_row col r = r(col @ ''_sha256'' := PyStr (sha256_hex (raw (r col))))"

fun hashed :: "string list \<Rightarrow> (int \<times> row) list \<Rightarrow> (int \<times> row) list" where
  "hashed [] rs = rs"
| "hashed (col # to_hash) rs = hashed to_hash (map (apsnd (hash_row col)) rs)"





section \<open>Example tables\<close>

text \<open>A store on which no call fails.\<close>

definition no_faults :: faults where
  "no_faults = (\<lambda>n. False)"

definition null_row :: row where
  "null_row = (\<lambda>c. PyNone)"

definition column_values :: "database \<Rightarrow> string \<Rightarrow> string \<Rightarrow> pyval list" where
  "column_values db T c = (case db T of None \<Rightarrow> [] | Some t \<Rightarrow> map (\<lambda>(i, r). r c) (rows t))"

definition column_names :: "database \<Rightarrow> string \<Rightarrow> string list" where
  "column_names db T = (case db T of None \<Rightarrow> [] | Some t \<Rightarrow> columns t)"

definition fresh :: "database \<Rightarrow> state" where
  "fresh db = \<lparr>durable = db, working = db, in_tx = False, trace = []\<rparr>"

text \<open>
  The table of the specification's scenario: columns \<open>id\<close> and \<open>name\<close>, rows
  \<open>(1, "alice")\<close> and \<open>(2, "BOB")\<close>; \<open>id\<close> is excluded.
\<close>

definition people :: table where
  "people =
     \<lparr>columns = [''id'', ''name''],
      rows = [(1, null_row(''id'' := PyInt 1, ''name'' := PyStr ''alice'')),
              (2, null_row(''id'' := PyInt 2, ''name'' := PyStr ''BOB''))]\<rparr>"

definition people_db :: database where
  "people_db = (\<lambda>T. None)(''T'' := Some people)"

text \<open>A table that already has a column named like a hash column, before its source column.\<close>

definition stale :: table where
  "stale = \<lparr>columns = [''a_sha256'', ''a''], rows = [(1, null_row)]\<rparr>"

definition stale_db :: database where
  "stale_db = (\<lambda>T. None)(''T'' := Some stale)"

text \<open>The scenario's columns with no rows.\<close>

definition no_rows :: table where
  "no_rows = \<lparr>columns = [''id'', ''name''], rows = []\<rparr>"

definition no_rows_db :: database where
  "no_rows_db = (\<lambda>T. None)(''T'' := Some no_rows)"

text \<open>A store on which exactly the call at position \<open>k\<close> of the trace fails.\<close>

definition fails_at :: "nat \<Rightarrow> faults" where
  "fails_at k = (\<lambda>n. n = k)"

lemma call_Inr: "call flt e w = Inr w' \<Longrightarrow> w' = emit e w"
  by (simp add: call_def split: if_splits)

lemma call_Inl: "call flt e w = Inl x \<Longrightarrow> x = (StoreError e, emit e w)"
  by (auto simp: call_def split: if_splits)





subsection \<open>Single calls\<close>

lemma connect_Inr:
  "connect flt w = Inr w' \<Longrightarrow>
   working w' = durable w \<and> durable w' = durable w \<and> in_tx w' = False \<and> trace w' = trace w @ [Connect]"
  by (auto simp: connect_def emit_def split: sum.splits dest!: call_Inr)

lemma table_info_Inr:
  "table_info flt T w = Inr (cs, w') \<Longrightarrow>
   cs = (case working w T of None \<Rightarrow> [] | Some t \<Rightarrow> columns t) \<and> working w' = working w \<and>
   durable w' = durable w \<and> in_tx w' = in_tx w \<and> trace w' = trace w @ [Execute (TableInfo T)]"
  by (auto simp: table_info_def emit_def split: sum.splits dest!: call_Inr)






lemma print_simps [simp]:
  "working (print m w) = working w" "durable (print m w) = durable w"
  "in_tx (print m w) = in_tx w" "trace (print m w) = trace w @ [Print m]"
  by (simp_all add: print_def emit_def)

subsection \<open>The loops, when they return\<close>



lemma map_fst_apsnd [simp]: "map fst (map (apsnd f) rs) = map fst rs"
  by (induction rs) auto






lemma columns_fold_with_column [simp]: "columns (fold with_column hs t) = columns t @ hs"
  by (induction hs arbitrary: t) (auto simp: with_column_def)

lemma rowids_fold_with_column [simp]: "map fst (rows (fold with_column hs t)) = map fst (rows t)"
  by (induction hs arbitrary: t) (auto simp: with_column_def)

lemma main_no_columns:
  "main flt EXCL T w = Inr w' \<Longrightarrow>
   eligible EXCL (case durable w T of None \<Rightarrow> [] | Some t \<Rightarrow> columns t) = [] \<Longrightarrow>
   working w' = durable w \<and> durable w' = durable w \<and> in_tx w' = False \<and>
   trace w' = trace w @ [Print (AddingHashes T), Connect, Execute (TableInfo T), Print NoColumnsToHash]"
proof -
  assume m: "main flt EXCL T w = Inr w'"
    and e: "eligible EXCL (case durable w T of None \<Rightarrow> [] | Some t \<Rightarrow> columns t) = []"
  let ?w0 = "print (AddingHashes T) w"
  from m obtain w1 cs w2 where
    c: "connect flt ?w0 = Inr w1" and ti: "table_info flt T w1 = Inr (cs, w2)"
    by (auto simp: main_def split: sum.splits)
  note c1 = connect_Inr [OF c]
  note ti1 = table_info_Inr [OF ti]
  have cs: "cs = (case durable w T of None \<Rightarrow> [] | Some t \<Rightarrow> columns t)"
    using c1 ti1 by simp
  from m c ti e cs have "w' = print NoColumnsToHash w2"
    by (simp add: main_def)
  then show ?thesis using c1 ti1 by simp
qed


subsection \<open>Rows after hashing\<close>







lemma outcome_state_Inr [simp]: "outcome_state (Inr w) = w"
  by (simp add: outcome_state_def)

lemma outcome_state_Inl [simp]: "outcome_state (Inl (e, w)) = w"
  by (simp add: outcome_state_def)

lemmas store_calls =
  connect_def call_def emit_def print_def table_info_def add_column_def commit_def close_def
  select_column_def update_hash_def alter_def with_column_def set_cell_def write_cell_def

lemmas examples =
  no_faults_def fresh_def null_row_def people_def people_db_def stale_def stale_db_def
  no_rows_def no_rows_db_def fails_at_def
  column_values_def column_names_def succeeded_def outcome_state_def raised_def events_of_def

subsection \<open>Calls on a store that does not fail\<close>

lemma succeeded_Inr_iff [simp]: "succeeded (Inr w)" "\<not> succeeded (Inl x)"
  by (simp_all add: succeeded_def)






subsection \<open>Digests\<close>









section \<open>The digest function\<close>




section \<open>The hash columns after a run\<close>




section \<open>Running twice\<close>

text \<open>
  C3.  On the scenario table the first run adds \<open>name_sha256\<close>.  The second run finds
  \<open>name_sha256\<close> among the columns, does not exclude it, and adds and fills
  \<open>name_sha256_sha256\<close>: running again is not idempotent.
\<close>

theorem second_run_adds_hash_of_hash_column:
  "column_names (durable (outcome_state (main no_faults [''id''] ''T'' (fresh people_db)))) ''T'' =
     [''id'', ''name'', ''name_sha256''] \<and>
   succeeded (main no_faults [''id''] ''T''
     (outcome_state (main no_faults [''id''] ''T'' (fresh people_db)))) \<and>
   column_names (durable (outcome_state (main no_faults [''id''] ''T''
     (outcome_state (main no_faults [''id''] ''T'' (fresh people_db)))))) ''T'' =
     [''id'', ''name'', ''name_sha256'', ''name_sha256_sha256'']"
  by (simp add: main_def store_calls examples Let_def)

section \<open>No eligible columns\<close>

text \<open>
  C6.  When every column of the table is excluded (or the table has none) and the calls to
  connect and to \<open>table_info\<close> do not fail, \<open>main\<close> prints the report and returns: the
  trace holds no alteration, no update and no commit, the database is unchanged, and the
  loop over the tables goes on with the next table.
\<close>

theorem no_eligible_columns_reported:
  assumes "eligible EXCL (column_names (durable w) T) = []"
    and "\<not> flt (Suc (length (trace w)))"
    and "\<not> flt (Suc (Suc (length (trace w))))"
  shows "succeeded (main flt EXCL T w) \<and>
         events_of w (main flt EXCL T w) =
           [Print (AddingHashes T), Connect, Execute (TableInfo T), Print NoColumnsToHash] \<and>
         durable (outcome_state (main flt EXCL T w)) = durable w \<and>
         working (outcome_state (main flt EXCL T w)) = durable w \<and>
         run_tables flt EXCL (T # TABLES) w =
           run_tables flt EXCL TABLES (outcome_state (main flt EXCL T w))"
proof -
  let ?w0 = "print (AddingHashes T) w"
  let ?w1 = "(emit Connect ?w0)\<lparr>working := durable (emit Connect ?w0), in_tx := False\<rparr>"
  let ?w2 = "emit (Execute (TableInfo T)) ?w1"
  have c: "connect flt ?w0 = Inr ?w1"
    using assms(2) by (simp add: connect_def call_def)
  have ti: "table_info flt T ?w1 = Inr (column_names (durable w) T, ?w2)"
    using assms(3) by (simp add: table_info_def call_def emit_def print_def column_names_def)
  have m: "main flt EXCL T w = Inr (print NoColumnsToHash ?w2)"
    using assms(1) by (simp add: main_def c ti)
  show ?thesis
    by (simp add: m events_of_def emit_def print_def)
qed

theorem no_eligible_columns_reported_witness:
  "eligible [''id'', ''name''] (column_names (durable (fresh people_db)) ''T'') = [] \<and>
   \<not> no_faults (Suc (length (trace (fresh people_db)))) \<and>
   \<not> no_faults (Suc (Suc (length (trace (fresh people_db))))) \<and>
   succeeded (main no_faults [''id'', ''name''] ''T'' (fresh people_db)) \<and>
   events_of (fresh people_db) (main no_faults [''id'', ''name''] ''T'' (fresh people_db)) =
     [Print (AddingHashes ''T''), Connect, Execute (TableInfo ''T''), Print NoColumnsToHash] \<and>
   durable (outcome_state (main no_faults [''id'', ''name''] ''T'' (fresh people_db))) =
     durable (fresh people_db)"
proof -
  have h1: "eligible [''id'', ''name''] (column_names (durable (fresh people_db)) ''T'') = []"
    by (simp add: examples)
  have h2: "\<not> no_faults (Suc (length (trace (fresh people_db))))"
    and h3: "\<not> no_faults (Suc (Suc (length (trace (fresh people_db)))))"
    by (simp_all add: no_faults_def)
  show ?thesis
    using no_eligible_columns_reported [OF h1 h2 h3] h1 h2 h3 by simp
qed

section \<open>Normalisation\<close>






section \<open>A table without rows\<close>



lemma hashed_empty [simp]: "hashed cols [] = []"
  by (induction cols) auto



end
